theory Spec2Isabelle
  imports Complex_Main
begin

section \<open>Values and errors\<close>

text \<open>
  The integration is written in Python. The dictionaries it receives are decoded JSON
  objects; the values the device cloud reports in them are \<open>null\<close>, booleans, integers
  and strings, and that is the value type of the model. Python floats (the energy
  counter, the monotonic clock, the timeouts) are modelled as reals: rounding is not
  modelled; where an integer too large for a float is converted or divided into one (the
  backoff computation, the acknowledged timeout), the OverflowError is. Strings are lists of characters whose
  code points are below 256.
\<close>

datatype jval = JNull | JBool bool | JInt int | JStr string

type_synonym jdict = "string \<rightharpoonup> jval"

datatype error =
    IndexError | ValueError | KeyError | TypeError | AttributeError
  | JSONDecodeError | OverflowError | CancelledError
  | HarviaAuthError | HarviaConnectionError | UpdateFailed

text \<open>Python's \<open>bool(v)\<close>.\<close>

fun truthy :: "jval \<Rightarrow> bool" where
  "truthy JNull = False"
| "truthy (JBool b) = b"
| "truthy (JInt n) = (n \<noteq> 0)"
| "truthy (JStr s) = (s \<noteq> [])"

text \<open>Python's \<open>str(v)\<close>: a string is itself, an integer its decimal numeral.\<close>

fun str_nat :: "nat \<Rightarrow> string" where
  "str_nat n =
     (if n < 10 then [''0123456789'' ! n]
      else str_nat (n div 10) @ [''0123456789'' ! (n mod 10)])"

declare str_nat.simps [simp del]

fun py_str :: "jval \<Rightarrow> string" where
  "py_str JNull = ''None''"
| "py_str (JBool b) = (if b then ''True'' else ''False'')"
| "py_str (JInt n) = (if n < 0 then CHR ''-'' # str_nat (nat (- n)) else str_nat (nat n))"
| "py_str (JStr s) = s"

text \<open>\<open>s[i]\<close> for a non-negative index: IndexError beyond the end.\<close>

definition str_index :: "string \<Rightarrow> nat \<Rightarrow> error + char" where
  "str_index s i = (if i < length s then Inr (s ! i) else Inl IndexError)"

text \<open>
  \<open>int(c)\<close> of a one-character string: the value of a decimal digit, ValueError for
  every other character (a sign, a blank or a letter alone is not a numeral).
\<close>

definition py_int_char :: "char \<Rightarrow> error + int" where
  "py_int_char c =
     (let k = (of_char c :: nat)
      in if 48 \<le> k \<and> k \<le> 57 then Inr (int k - 48) else Inl ValueError)"

section \<open>The device record (coordinator.py, HarviaDeviceData)\<close>

record HarviaDeviceData =
  device_id :: jval
  display_name :: jval
  active :: bool
  lights_on :: bool
  fan_on :: bool
  steam_on :: bool
  steam_enabled :: bool
  aroma_enabled :: bool
  aroma_level :: jval
  auto_light :: bool
  auto_fan :: bool
  dehumidifier_enabled :: bool
  target_temp :: jval
  current_temp :: jval
  target_rh :: jval
  humidity :: jval
  temp_unit :: jval
  heat_up_time :: jval
  remaining_time :: jval
  on_time :: jval
  status_codes :: "string option"
  door_open :: bool
  heat_on :: bool
  wifi_rssi :: jval
  timestamp :: jval
  ph1_relay_counter :: jval
  ph2_relay_counter :: jval
  ph3_relay_counter :: jval
  ph1_relay_counter_lt :: jval
  ph2_relay_counter_lt :: jval
  ph3_relay_counter_lt :: jval
  steam_on_counter :: jval
  steam_on_counter_lt :: jval
  heat_on_counter :: jval
  heat_on_counter_lt :: jval
  heater_power :: int
  energy_kwh :: real
  last_heat_on_timestamp :: "real option"

text \<open>\<open>HarviaDeviceData(device_id=device_id)\<close>: every other field at its default.\<close>

definition new_device :: "string \<Rightarrow> HarviaDeviceData" where
  "new_device did =
     \<lparr> device_id = JStr did, display_name = JStr ''Harvia Sauna'',
       active = False, lights_on = False, fan_on = False, steam_on = False,
       steam_enabled = False, aroma_enabled = False, aroma_level = JInt 0,
       auto_light = False, auto_fan = False, dehumidifier_enabled = False,
       target_temp = JNull, current_temp = JNull, target_rh = JInt 0, humidity = JInt 0,
       temp_unit = JInt 0, heat_up_time = JInt 0, remaining_time = JInt 0,
       on_time = JInt 360, status_codes = None, door_open = False, heat_on = False,
       wifi_rssi = JNull, timestamp = JNull,
       ph1_relay_counter = JInt 0, ph2_relay_counter = JInt 0, ph3_relay_counter = JInt 0,
       ph1_relay_counter_lt = JInt 0, ph2_relay_counter_lt = JInt 0,
       ph3_relay_counter_lt = JInt 0,
       steam_on_counter = JInt 0, steam_on_counter_lt = JInt 0,
       heat_on_counter = JInt 0, heat_on_counter_lt = JInt 0,
       heater_power = 10800, energy_kwh = 0, last_heat_on_timestamp = None \<rparr>"

section \<open>Applying a state delta (coordinator.py, \_apply\_state\_data)\<close>

text \<open>
  \<open>if key in data: device.field = data[key]\<close>, raw or through \<open>bool\<close>: the new value of a
  field is the delta's value when the key is present and the old value otherwise.
\<close>

definition raw_field :: "jdict \<Rightarrow> string \<Rightarrow> jval \<Rightarrow> jval" where
  "raw_field delta k old = (case delta k of None \<Rightarrow> old | Some v \<Rightarrow> v)"

definition bool_field :: "jdict \<Rightarrow> string \<Rightarrow> bool \<Rightarrow> bool" where
  "bool_field delta k old = (case delta k of None \<Rightarrow> old | Some v \<Rightarrow> truthy v)"

text \<open>
  The door flag: \<open>int(str(data["statusCodes"])[1]) == 9\<close> inside
  \<open>try ... except (IndexError, ValueError): pass\<close>. The handler keeps the old flag on the
  two exceptions it names; any other exception would leave the function.
\<close>

definition second_digit :: "string \<Rightarrow> error + int" where
  "second_digit s = (case str_index s 1 of Inl e \<Rightarrow> Inl e | Inr c \<Rightarrow> py_int_char c)"

definition parse_door :: "string \<Rightarrow> bool \<Rightarrow> error + bool" where
  "parse_door s old =
     (case second_digit s of
        Inr n \<Rightarrow> Inr (n = 9)
      | Inl IndexError \<Rightarrow> Inr old
      | Inl ValueError \<Rightarrow> Inr old
      | Inl e \<Rightarrow> Inl e)"

text \<open>
  The assignments of the function write pairwise distinct fields (only the status code
  writes two), so the chain of \<open>if key in data\<close> statements is one record update whose
  right-hand sides read the record as it was on entry. The key \<open>tz\<close> is read and dropped.
\<close>

definition apply_state_data :: "HarviaDeviceData \<Rightarrow> jdict \<Rightarrow> error + HarviaDeviceData" where
  "apply_state_data d delta =
     (let d1 = d\<lparr>
            display_name := raw_field delta ''displayName'' (display_name d),
            device_id := raw_field delta ''deviceId'' (device_id d),
            active := bool_field delta ''active'' (active d),
            lights_on := bool_field delta ''light'' (lights_on d),
            fan_on := bool_field delta ''fan'' (fan_on d),
            steam_enabled := bool_field delta ''steamEn'' (steam_enabled d),
            target_temp := raw_field delta ''targetTemp'' (target_temp d),
            target_rh := raw_field delta ''targetRh'' (target_rh d),
            heat_up_time := raw_field delta ''heatUpTime'' (heat_up_time d),
            on_time := raw_field delta ''onTime'' (on_time d),
            dehumidifier_enabled := bool_field delta ''dehumEn'' (dehumidifier_enabled d),
            auto_light := bool_field delta ''autoLight'' (auto_light d),
            auto_fan := bool_field delta ''autoFan'' (auto_fan d),
            temp_unit := raw_field delta ''tempUnit'' (temp_unit d),
            aroma_enabled := bool_field delta ''aromaEn'' (aroma_enabled d),
            aroma_level := raw_field delta ''aromaLevel'' (aroma_level d) \<rparr>
      in case delta ''statusCodes'' of
           None \<Rightarrow> Inr d1
         | Some v \<Rightarrow>
             (case parse_door (py_str v) (door_open d) of
                Inl e \<Rightarrow> Inl e
              | Inr b \<Rightarrow> Inr (d1\<lparr> status_codes := Some (py_str v), door_open := b \<rparr>)))"

section \<open>Applying a telemetry delta (coordinator.py, \_apply\_telemetry\_data)\<close>

text \<open>
  \<open>now\<close> is the reading of \<open>time.monotonic()\<close>, taken when the delta has the key
  \<open>heatOn\<close>. \<open>was_heating\<close> and the stored timestamp are the fields of the record on
  entry; the energy is credited before the timestamp is replaced.
\<close>

definition accrued_energy :: "HarviaDeviceData \<Rightarrow> real \<Rightarrow> real" where
  "accrued_energy d now =
     (case last_heat_on_timestamp d of
        Some t \<Rightarrow>
          (if heat_on d
           then energy_kwh d + (real_of_int (heater_power d) / 1000) * ((now - t) / 3600)
           else energy_kwh d)
      | None \<Rightarrow> energy_kwh d)"

definition apply_telemetry_data :: "HarviaDeviceData \<Rightarrow> jdict \<Rightarrow> real \<Rightarrow> HarviaDeviceData" where
  "apply_telemetry_data d delta now =
     d\<lparr> current_temp := raw_field delta ''temperature'' (current_temp d),
        humidity := raw_field delta ''humidity'' (humidity d),
        heat_on := bool_field delta ''heatOn'' (heat_on d),
        energy_kwh :=
          (case delta ''heatOn'' of None \<Rightarrow> energy_kwh d | Some v \<Rightarrow> accrued_energy d now),
        last_heat_on_timestamp :=
          (case delta ''heatOn'' of
             None \<Rightarrow> last_heat_on_timestamp d
           | Some v \<Rightarrow> (if truthy v then Some now else None)),
        steam_on := bool_field delta ''steamOn'' (steam_on d),
        remaining_time := raw_field delta ''remainingTime'' (remaining_time d),
        target_temp := raw_field delta ''targetTemp'' (target_temp d),
        wifi_rssi := raw_field delta ''wifiRSSI'' (wifi_rssi d),
        timestamp := raw_field delta ''timestamp'' (timestamp d),
        ph1_relay_counter := raw_field delta ''ph1RelayCounter'' (ph1_relay_counter d),
        ph2_relay_counter := raw_field delta ''ph2RelayCounter'' (ph2_relay_counter d),
        ph3_relay_counter := raw_field delta ''ph3RelayCounter'' (ph3_relay_counter d),
        ph1_relay_counter_lt := raw_field delta ''ph1RelayCounterLT'' (ph1_relay_counter_lt d),
        ph2_relay_counter_lt := raw_field delta ''ph2RelayCounterLT'' (ph2_relay_counter_lt d),
        ph3_relay_counter_lt := raw_field delta ''ph3RelayCounterLT'' (ph3_relay_counter_lt d),
        steam_on_counter := raw_field delta ''steamOnCounter'' (steam_on_counter d),
        steam_on_counter_lt := raw_field delta ''steamOnCounterLT'' (steam_on_counter_lt d),
        heat_on_counter := raw_field delta ''heatOnCounter'' (heat_on_counter d),
        heat_on_counter_lt := raw_field delta ''heatOnCounterLT'' (heat_on_counter_lt d) \<rparr>"

section \<open>The coordinator (coordinator.py, HarviaSaunaCoordinator)\<close>

record HarviaSaunaData =
  devices :: "string \<rightharpoonup> HarviaDeviceData"
  available :: bool

text \<open>
  \<open>config_entry\<close> is the data of the configuration entry (the user's heater model and
  heater power among it); \<open>data\<close> is \<open>self.data\<close>, \<open>None\<close> until the first refresh.
\<close>

record HarviaSaunaCoordinator =
  config_entry :: "string \<rightharpoonup> string"
  data :: "HarviaSaunaData option"

subsection \<open>Fallback polling (\_async\_update\_data)\<close>

text \<open>
  What one pass of the loop obtains from outside: the device identifier of the tree entry,
  the two REST answers (an exception or a decoded object each) and the reading of the
  monotonic clock while the telemetry is applied.
\<close>

record fetched =
  fetched_id :: string
  fetched_state :: "error + jdict"
  fetched_telemetry :: "error + jdict"
  fetched_now :: real

text \<open>The three \<open>except\<close> clauses turn every exception into UpdateFailed; a cancellation
  is no \<open>Exception\<close> and passes.\<close>

definition update_failed :: "error \<Rightarrow> error" where
  "update_failed e = (if e = CancelledError then CancelledError else UpdateFailed)"

fun poll_devices ::
  "(string \<rightharpoonup> HarviaDeviceData) \<Rightarrow> fetched list \<Rightarrow> error + (string \<rightharpoonup> HarviaDeviceData)" where
  "poll_devices devs [] = Inr devs"
| "poll_devices devs (f # fs) =
     (case fetched_state f of
        Inl e \<Rightarrow> Inl (update_failed e)
      | Inr state \<Rightarrow>
          (case fetched_telemetry f of
             Inl e \<Rightarrow> Inl (update_failed e)
           | Inr telemetry \<Rightarrow>
               (case apply_state_data (new_device (fetched_id f)) state of
                  Inl e \<Rightarrow> Inl (update_failed e)
                | Inr device_data \<Rightarrow>
                    poll_devices
                      (devs(fetched_id f \<mapsto>
                         apply_telemetry_data device_data telemetry (fetched_now f)))
                      fs)))"

text \<open>
  The first argument is \<open>self\<close>. The result is built from \<open>HarviaSaunaData()\<close>, an empty
  device map, and one \<open>HarviaDeviceData(device_id=device_id)\<close> for each entry of the tree.
\<close>

definition async_update_data ::
  "HarviaSaunaCoordinator \<Rightarrow> error + fetched list \<Rightarrow> error + HarviaSaunaData" where
  "async_update_data self device_tree =
     (case device_tree of
        Inl e \<Rightarrow> Inl (update_failed e)
      | Inr entries \<Rightarrow>
          (case poll_devices Map.empty entries of
             Inl e \<Rightarrow> Inl e
           | Inr devs \<Rightarrow> Inr \<lparr> devices = devs, available = True \<rparr>))"

text \<open>
  One refresh of the update coordinator of the host framework: the value returned by
  \<open>_async_update_data\<close> becomes \<open>self.data\<close>; a failed cycle leaves \<open>self.data\<close> as it was.
\<close>

definition async_refresh ::
  "HarviaSaunaCoordinator \<Rightarrow> error + fetched list \<Rightarrow> HarviaSaunaCoordinator" where
  "async_refresh self device_tree =
     (case async_update_data self device_tree of
        Inl e \<Rightarrow> self
      | Inr d \<Rightarrow> self\<lparr> data := Some d \<rparr>)"

subsection \<open>Push updates (\_async\_handle\_ws\_update)\<close>

text \<open>
  The payload of a \<open>data\<close> frame. \<open>json.loads\<close> is the library's: the model receives its
  result, an exception or the decoded object. For a state update the argument is the
  \<open>reported\<close> body: \<open>None\<close> when it is absent or empty. A telemetry item has its device
  identifier (\<open>None\<close> when absent), its decoded \<open>data\<close> and its \<open>timestamp\<close> (\<open>JNull\<close>
  when absent). \<open>Malformed e\<close> is a payload on which the inspection itself raises \<open>e\<close>
  (a \<open>null\<close> where an object is read).
\<close>

record item =
  item_deviceId :: "jval option"
  item_data :: "error + jdict"
  item_timestamp :: jval

datatype payload_data =
    OnStateUpdated "(error + jdict) option"
  | OnDataUpdates item
  | Unrecognized
  | Malformed error

text \<open>\<open>device_id and device_id in self.data.devices\<close>: the keys of the map are strings,
  so only a non-empty string can be found; the result is the key and its record.\<close>

definition known_device ::
  "jval option \<Rightarrow> (string \<rightharpoonup> HarviaDeviceData) \<Rightarrow> (string \<times> HarviaDeviceData) option" where
  "known_device v devs =
     (case v of
        Some (JStr k) \<Rightarrow>
          (if truthy (JStr k) then (case devs k of None \<Rightarrow> None | Some dev \<Rightarrow> Some (k, dev))
           else None)
      | _ \<Rightarrow> None)"

definition store_device ::
  "HarviaSaunaCoordinator \<Rightarrow> HarviaSaunaData \<Rightarrow> string \<Rightarrow> HarviaDeviceData \<Rightarrow> HarviaSaunaCoordinator" where
  "store_device self sd k dev = self\<lparr> data := Some (sd\<lparr> devices := (devices sd)(k \<mapsto> dev) \<rparr>) \<rparr>"

text \<open>The boolean of the result is \<open>updated\<close>: whether the listeners were notified.\<close>

definition async_handle_ws_update ::
  "HarviaSaunaCoordinator \<Rightarrow> payload_data \<Rightarrow> real \<Rightarrow> error + (HarviaSaunaCoordinator \<times> bool)" where
  "async_handle_ws_update self payload now =
     (case data self of
        None \<Rightarrow> Inr (self, False)
      | Some sd \<Rightarrow>
          (case payload of
             Malformed e \<Rightarrow> Inl e
           | Unrecognized \<Rightarrow> Inr (self, False)
           | OnStateUpdated reported \<Rightarrow>
               (case reported of
                  None \<Rightarrow> Inr (self, False)
                | Some (Inl e) \<Rightarrow> Inl e
                | Some (Inr state) \<Rightarrow>
                    (case known_device (state ''deviceId'') (devices sd) of
                       None \<Rightarrow> Inr (self, False)
                     | Some (k, dev) \<Rightarrow>
                         (case apply_state_data dev state of
                            Inl e \<Rightarrow> Inl e
                          | Inr dev' \<Rightarrow> Inr (store_device self sd k dev', True))))
           | OnDataUpdates it \<Rightarrow>
               (case known_device (item_deviceId it) (devices sd) of
                  None \<Rightarrow> Inr (self, False)
                | Some (k, dev) \<Rightarrow>
                    (case item_data it of
                       Inl e \<Rightarrow> Inl e
                     | Inr telemetry \<Rightarrow>
                         Inr (store_device self sd k
                                (apply_telemetry_data dev
                                   (telemetry(''timestamp'' \<mapsto> item_timestamp it)) now),
                              True)))))"

text \<open>The coordinator after a push: the handler changes it only as its last step, so an
  exception leaves it as it was.\<close>

definition after_push ::
  "HarviaSaunaCoordinator \<Rightarrow> payload_data \<Rightarrow> real \<Rightarrow> HarviaSaunaCoordinator" where
  "after_push self payload now =
     (case async_handle_ws_update self payload now of
        Inl e \<Rightarrow> self
      | Inr (self', updated) \<Rightarrow> self')"

text \<open>A record lives from its creation through the deltas applied to it: a state delta
  or a telemetry delta, each with the clock reading at its arrival.\<close>

datatype update = StateDelta jdict | TelemetryDelta jdict

fun apply_update :: "HarviaDeviceData \<Rightarrow> real \<times> update \<Rightarrow> HarviaDeviceData" where
  "apply_update d (now, StateDelta delta) =
     (case apply_state_data d delta of Inl e \<Rightarrow> d | Inr d' \<Rightarrow> d')"
| "apply_update d (now, TelemetryDelta delta) = apply_telemetry_data d delta now"

definition apply_updates :: "HarviaDeviceData \<Rightarrow> (real \<times> update) list \<Rightarrow> HarviaDeviceData" where
  "apply_updates d ups = foldl apply_update d ups"

section \<open>One WebSocket connection (websocket.py, HarviaWebSocket)\<close>

definition WS_RECONNECT_INTERVAL :: real where
  "WS_RECONNECT_INTERVAL = 1800"

definition WS_HEARTBEAT_TIMEOUT :: real where
  "WS_HEARTBEAT_TIMEOUT = 300"

definition WS_MAX_RECONNECT_DELAY :: real where
  "WS_MAX_RECONNECT_DELAY = 60"

text \<open>The fields of the connection object on which its loops branch: \<open>_running\<close>,
  \<open>_reconnect_attempts\<close> and whether \<open>_websocket\<close> holds a transport. The endpoint, the
  receiver and the subscription identifier (a fresh random one for each attempt) go into
  the frames that are sent and decide nothing here.\<close>

record HarviaWebSocket =
  ws_running :: bool
  reconnect_attempts :: nat
  websocket_open :: bool

text \<open>The local variables of the receive loop.\<close>

record listen_state =
  timeout :: real
  reconnect_timer :: real

text \<open>
  A decoded frame, by its \<open>type\<close>. A \<open>connection_ack\<close> has its payload (\<open>None\<close> when
  the frame has none; an association list, which Python takes as false when it is empty)
  and the exception raised while the subscription is created, if any. A \<open>data\<close> frame has
  the exception raised by the message callback, if any.
\<close>

datatype message =
    Ka
  | ConnectionAck "(string \<times> jval) list option" "error option"
  | Data "error option"
  | ErrorMessage
  | UnknownMessage

text \<open>What one \<open>await asyncio.wait_for(websocket.recv(), timeout)\<close> ends with.\<close>

datatype recv =
    RecvTimeout
  | RecvClosedError
  | RecvRaises error
  | Undecodable
  | Received message

datatype loop_result = Listening listen_state | Break | Raise error

text \<open>
  The largest double is \<open>2 ^ 1024 - 2 ^ 971\<close>; a magnitude from \<open>2 ^ 1024 - 2 ^ 970\<close> on,
  half a step above it, rounds beyond it.
\<close>

definition DBL_OVERFLOW :: int where
  "DBL_OVERFLOW = 2 ^ 1024 - 2 ^ 970"

text \<open>\<open>value / 1000\<close>: true division of a number (a boolean is a number in Python),
  TypeError otherwise. The quotient of an integer is a float: OverflowError when it is
  beyond the doubles.\<close>

fun py_truediv_1000 :: "jval \<Rightarrow> error + real" where
  "py_truediv_1000 (JInt n) =
     (if 1000 * DBL_OVERFLOW \<le> \<bar>n\<bar> then Inl OverflowError
      else Inr (real_of_int n / 1000))"
| "py_truediv_1000 (JBool b) = Inr ((if b then 1 else 0) / 1000)"
| "py_truediv_1000 JNull = Inl TypeError"
| "py_truediv_1000 (JStr s) = Inl TypeError"

text \<open>\<open>if message.get("payload"): timeout = message["payload"]["connectionTimeoutMs"] / 1000\<close>\<close>

definition ack_timeout :: "(string \<times> jval) list option \<Rightarrow> real \<Rightarrow> error + real" where
  "ack_timeout payload old =
     (case payload of
        None \<Rightarrow> Inr old
      | Some p \<Rightarrow>
          (if p = [] then Inr old
           else (case map_of p ''connectionTimeoutMs'' of
                   None \<Rightarrow> Inl KeyError
                 | Some v \<Rightarrow> py_truediv_1000 v)))"

text \<open>One pass of the receive loop of \<open>_async_connect_and_listen\<close>.\<close>

fun listen_step :: "listen_state \<Rightarrow> recv \<Rightarrow> loop_result" where
  "listen_step st RecvTimeout = Break"
| "listen_step st RecvClosedError = Break"
| "listen_step st (RecvRaises e) = Raise e"
| "listen_step st Undecodable = Raise JSONDecodeError"
| "listen_step st (Received Ka) =
     (let t = reconnect_timer st + timeout st
      in if WS_RECONNECT_INTERVAL \<le> t then Break
         else Listening (st\<lparr> reconnect_timer := t \<rparr>))"
| "listen_step st (Received (ConnectionAck payload sub)) =
     (case ack_timeout payload (timeout st) of
        Inl e \<Rightarrow> Raise e
      | Inr t \<Rightarrow>
          (case sub of
             Some e \<Rightarrow> Raise e
           | None \<Rightarrow> Listening (st\<lparr> timeout := t \<rparr>)))"
| "listen_step st (Received (Data r)) =
     (case r of Some e \<Rightarrow> Raise e | None \<Rightarrow> Listening st)"
| "listen_step st (Received ErrorMessage) = Listening st"
| "listen_step st (Received UnknownMessage) = Listening st"

text \<open>The receive loop over the events received so far: \<open>Listening\<close> while it is still
  waiting for the next one.\<close>

fun listen :: "listen_state \<Rightarrow> recv list \<Rightarrow> loop_result" where
  "listen st [] = Listening st"
| "listen st (ev # evs) =
     (case listen_step st ev of
        Listening st' \<Rightarrow> listen st' evs
      | Break \<Rightarrow> Break
      | Raise e \<Rightarrow> Raise e)"

text \<open>
  One connection attempt: it fails before the transport is open (resolving the endpoint
  or connecting raises), or the transport opens and the events follow.
\<close>

datatype attempt = ConnectFails error | Connected "recv list"

datatype outcome = Returned | Raised error

text \<open>
  \<open>_async_connect_and_listen\<close>. Once the transport is open the object keeps it and the
  counter is set to zero, before \<open>connection_init\<close> is sent. The assignment
  \<open>self._websocket = None\<close> follows the \<open>async with\<close> block: an exception skips it. The
  result is \<open>None\<close> while the loop is still receiving.
\<close>

definition async_connect_and_listen ::
  "HarviaWebSocket \<Rightarrow> attempt \<Rightarrow> (HarviaWebSocket \<times> outcome) option" where
  "async_connect_and_listen self att =
     (case att of
        ConnectFails e \<Rightarrow> Some (self, Raised e)
      | Connected evs \<Rightarrow>
          (let self1 = self\<lparr> websocket_open := True, reconnect_attempts := 0 \<rparr>
           in case listen \<lparr> timeout = WS_HEARTBEAT_TIMEOUT, reconnect_timer = 0 \<rparr> evs of
                Listening st \<Rightarrow> None
              | Break \<Rightarrow> Some (self1\<lparr> websocket_open := False \<rparr>, Returned)
              | Raise e \<Rightarrow> Some (self1, Raised e)))"

definition async_stop :: "HarviaWebSocket \<Rightarrow> HarviaWebSocket" where
  "async_stop self = self\<lparr> ws_running := False, websocket_open := False \<rparr>"

text \<open>
  \<open>2 ** attempts + random.uniform(0, 1)\<close> adds an integer and a float: the integer is
  converted to a float, which raises OverflowError from \<open>2 ** 1024\<close> on. \<open>u\<close> is the value
  drawn by \<open>random.uniform(0, 1)\<close>.
\<close>

definition backoff_delay :: "nat \<Rightarrow> real \<Rightarrow> error + real" where
  "backoff_delay n u =
     (if 1024 \<le> n then Inl OverflowError
      else Inr (min (2 ^ n + u) WS_MAX_RECONNECT_DELAY))"

text \<open>
  One pass of the loop of \<open>async_run\<close>: the connection cycle, then the backoff.
  \<open>stop_requested\<close> says that \<open>async_stop\<close> ran while the cycle was waiting. The pass
  ends by leaving the loop, by an exception that leaves \<open>async_run\<close>, or by sleeping for
  the delay; it is \<open>None\<close> while the cycle has not ended.
\<close>

record cycle =
  cycle_attempt :: attempt
  stop_requested :: bool
  jitter :: real

datatype pass_result = Exit | Crash error | Sleep real

definition run_pass :: "HarviaWebSocket \<Rightarrow> cycle \<Rightarrow> (HarviaWebSocket \<times> pass_result) option" where
  "run_pass self c =
     (if \<not> ws_running self then Some (self, Exit)
      else (case async_connect_and_listen self (cycle_attempt c) of
              None \<Rightarrow> None
            | Some (self1, oc) \<Rightarrow>
                (let self2 = (if stop_requested c then async_stop self1 else self1)
                 in if oc = Raised CancelledError then Some (self2, Exit)
                    else if \<not> ws_running self2 then Some (self2, Exit)
                    else (case backoff_delay (reconnect_attempts self2) (jitter c) of
                            Inl e \<Rightarrow> Some (self2, Crash e)
                          | Inr delay \<Rightarrow>
                              Some (self2\<lparr> reconnect_attempts := reconnect_attempts self2 + 1 \<rparr>,
                                    Sleep delay)))))"

section \<open>The connection manager (websocket.py, HarviaWebSocketManager)\<close>

text \<open>
  The manager starts one task for each of its connections; each task has its own receive
  loop and its own local \<open>timeout\<close>. An event arrives at one connection and is handled by
  the receive loop of that connection.
\<close>

definition async_start :: "loop_result list" where
  "async_start = replicate 4 (Listening \<lparr> timeout = WS_HEARTBEAT_TIMEOUT, reconnect_timer = 0 \<rparr>)"

definition deliver :: "loop_result list \<Rightarrow> nat \<Rightarrow> recv \<Rightarrow> loop_result list" where
  "deliver conns i ev =
     (if i < length conns
      then conns[i := (case conns ! i of Listening st \<Rightarrow> listen_step st ev | r \<Rightarrow> r)]
      else conns)"

definition is_ack :: "recv \<Rightarrow> bool" where
  "is_ack ev = (case ev of Received (ConnectionAck p s) \<Rightarrow> True | _ \<Rightarrow> False)"

section \<open>Reading a record (entity.py, \_get\_device\_data)\<close>

text \<open>\<open>None\<close> when the coordinator has no data, else \<open>coordinator.data.devices.get(id)\<close>.\<close>

definition get_device_data :: "HarviaSaunaCoordinator \<Rightarrow> string \<Rightarrow> HarviaDeviceData option" where
  "get_device_data self k = (case data self of None \<Rightarrow> None | Some sd \<Rightarrow> devices sd k)"

section \<open>The timestamp of a record and the clock\<close>

text \<open>The stored heat-on-since timestamp, when present, is not later than \<open>t\<close>.\<close>

definition stamp_le :: "HarviaDeviceData \<Rightarrow> real \<Rightarrow> bool" where
  "stamp_le d t = (case last_heat_on_timestamp d of None \<Rightarrow> True | Some t0 \<Rightarrow> t0 \<le> t)"

section \<open>Auxiliary facts\<close>

lemma of_char_is_digit:
  "(48 \<le> (of_char c :: nat) \<and> (of_char c :: nat) \<le> 57) = (c \<in> set ''0123456789'')"
proof -
  have e: "((of_char c :: nat) = of_char d) = (c = d)" for d
    by simp
  have "(48 \<le> (of_char c :: nat) \<and> (of_char c :: nat) \<le> 57)
          = ((of_char c :: nat) \<in> {48, 49, 50, 51, 52, 53, 54, 55, 56, 57})"
    by (simp only: insert_iff empty_iff) arith
  also have "\<dots> = (c \<in> set ''0123456789'')"
    using e [of "CHR ''0''"] e [of "CHR ''1''"] e [of "CHR ''2''"] e [of "CHR ''3''"]
      e [of "CHR ''4''"] e [of "CHR ''5''"] e [of "CHR ''6''"] e [of "CHR ''7''"]
      e [of "CHR ''8''"] e [of "CHR ''9''"]
    by simp
  finally show ?thesis .
qed

lemma of_char_is_nine: "((of_char c :: nat) = 57) = (c = CHR ''9'')"
proof -
  have n: "(of_char (CHR ''9'') :: nat) = 57"
    by simp
  show ?thesis
    unfolding n [symmetric] by (rule of_char_eq_iff)
qed

lemma parse_door_eq:
  "parse_door s old =
     Inr (if 2 \<le> length s \<and> s ! 1 \<in> set ''0123456789'' then s ! 1 = CHR ''9'' else old)"
  using of_char_is_digit [of "s ! 1"] of_char_is_nine [of "s ! 1"]
  by (auto simp add: parse_door_def second_digit_def str_index_def py_int_char_def Let_def
        simp del: set_simps)

lemma parse_door_twice:
  "parse_door s old = Inr b \<Longrightarrow> parse_door s b = Inr b"
  by (auto simp add: parse_door_eq simp del: set_simps)

lemma raw_field_twice [simp]: "raw_field delta k (raw_field delta k old) = raw_field delta k old"
  by (simp add: raw_field_def split: option.split)

lemma bool_field_twice [simp]: "bool_field delta k (bool_field delta k old) = bool_field delta k old"
  by (simp add: bool_field_def split: option.split)

lemma apply_state_data_total: "\<exists>d'. apply_state_data d delta = Inr d'"
  by (simp add: apply_state_data_def Let_def parse_door_eq split: option.split del: set_simps)

lemma apply_state_data_twice:
  assumes "apply_state_data d delta = Inr d1"
  shows "apply_state_data d1 delta = Inr d1"
proof (cases "delta ''statusCodes''")
  case None
  with assms have "d1 = d\<lparr>
            display_name := raw_field delta ''displayName'' (display_name d),
            device_id := raw_field delta ''deviceId'' (device_id d),
            active := bool_field delta ''active'' (active d),
            lights_on := bool_field delta ''light'' (lights_on d),
            fan_on := bool_field delta ''fan'' (fan_on d),
            steam_enabled := bool_field delta ''steamEn'' (steam_enabled d),
            target_temp := raw_field delta ''targetTemp'' (target_temp d),
            target_rh := raw_field delta ''targetRh'' (target_rh d),
            heat_up_time := raw_field delta ''heatUpTime'' (heat_up_time d),
            on_time := raw_field delta ''onTime'' (on_time d),
            dehumidifier_enabled := bool_field delta ''dehumEn'' (dehumidifier_enabled d),
            auto_light := bool_field delta ''autoLight'' (auto_light d),
            auto_fan := bool_field delta ''autoFan'' (auto_fan d),
            temp_unit := raw_field delta ''tempUnit'' (temp_unit d),
            aroma_enabled := bool_field delta ''aromaEn'' (aroma_enabled d),
            aroma_level := raw_field delta ''aromaLevel'' (aroma_level d) \<rparr>"
    by (simp add: apply_state_data_def Let_def)
  then show ?thesis using None
    by (simp add: apply_state_data_def Let_def)
next
  case (Some v)
  obtain b where b: "parse_door (py_str v) (door_open d) = Inr b"
    by (simp add: parse_door_eq)
  with Some assms have "d1 = d\<lparr>
            display_name := raw_field delta ''displayName'' (display_name d),
            device_id := raw_field delta ''deviceId'' (device_id d),
            active := bool_field delta ''active'' (active d),
            lights_on := bool_field delta ''light'' (lights_on d),
            fan_on := bool_field delta ''fan'' (fan_on d),
            steam_enabled := bool_field delta ''steamEn'' (steam_enabled d),
            target_temp := raw_field delta ''targetTemp'' (target_temp d),
            target_rh := raw_field delta ''targetRh'' (target_rh d),
            heat_up_time := raw_field delta ''heatUpTime'' (heat_up_time d),
            on_time := raw_field delta ''onTime'' (on_time d),
            dehumidifier_enabled := bool_field delta ''dehumEn'' (dehumidifier_enabled d),
            auto_light := bool_field delta ''autoLight'' (auto_light d),
            auto_fan := bool_field delta ''autoFan'' (auto_fan d),
            temp_unit := raw_field delta ''tempUnit'' (temp_unit d),
            aroma_enabled := bool_field delta ''aromaEn'' (aroma_enabled d),
            aroma_level := raw_field delta ''aromaLevel'' (aroma_level d),
            status_codes := Some (py_str v), door_open := b \<rparr>"
    by (simp add: apply_state_data_def Let_def)
  then show ?thesis using Some parse_door_twice [OF b]
    by (simp add: apply_state_data_def Let_def)
qed

lemma bool_field_Some: "delta k = Some v \<Longrightarrow> bool_field delta k old = truthy v"
  by (simp add: bool_field_def)

lemma bool_field_None: "delta k = None \<Longrightarrow> bool_field delta k old = old"
  by (simp add: bool_field_def)

lemma telemetry_twice_no_heat:
  assumes "\<not> (\<exists>v. delta ''heatOn'' = Some v \<and> truthy v)"
  shows "apply_telemetry_data (apply_telemetry_data d delta t1) delta t2
           = apply_telemetry_data d delta t1"
proof (cases "delta ''heatOn''")
  case None
  then show ?thesis
    by (simp add: apply_telemetry_data_def bool_field_None)
next
  case (Some v)
  with assms have "\<not> truthy v" by simp
  with Some show ?thesis
    by (simp add: apply_telemetry_data_def accrued_energy_def bool_field_Some)
qed

lemma telemetry_twice_heat:
  assumes "delta ''heatOn'' = Some v" "truthy v"
  shows "apply_telemetry_data (apply_telemetry_data d delta t1) delta t2
           = (apply_telemetry_data d delta t1)
               \<lparr> energy_kwh := energy_kwh (apply_telemetry_data d delta t1)
                    + (real_of_int (heater_power d) / 1000) * ((t2 - t1) / 3600),
                 last_heat_on_timestamp := Some t2 \<rparr>"
  using assms
  by (simp add: apply_telemetry_data_def accrued_energy_def bool_field_Some)

lemma apply_state_data_frame:
  assumes "apply_state_data d delta = Inr d'"
  shows "energy_kwh d' = energy_kwh d" "heater_power d' = heater_power d"
    "last_heat_on_timestamp d' = last_heat_on_timestamp d" "heat_on d' = heat_on d"
  using assms
  by (auto simp add: apply_state_data_def Let_def split: option.splits sum.splits)

lemma apply_update_heater_power: "heater_power (apply_update d x) = heater_power d"
proof (cases x)
  case (Pair now u)
  show ?thesis
  proof (cases u)
    case (StateDelta delta)
    with Pair show ?thesis
      by (auto simp add: apply_state_data_frame split: sum.split)
  next
    case (TelemetryDelta delta)
    with Pair show ?thesis
      by (simp add: apply_telemetry_data_def)
  qed
qed

lemma apply_updates_heater_power: "heater_power (apply_updates d ups) = heater_power d"
  unfolding apply_updates_def
  by (induction ups arbitrary: d) (simp_all add: apply_update_heater_power)

lemma stamp_le_mono: "stamp_le d t \<Longrightarrow> t \<le> t' \<Longrightarrow> stamp_le d t'"
  by (auto simp add: stamp_le_def split: option.splits)

lemma apply_update_stamp_le:
  assumes "stamp_le d now"
  shows "stamp_le (apply_update d (now, u)) now"
proof (cases u)
  case (StateDelta delta)
  with assms show ?thesis
    by (auto simp add: stamp_le_def apply_state_data_frame split: sum.split)
next
  case (TelemetryDelta delta)
  with assms show ?thesis
    by (auto simp add: stamp_le_def apply_telemetry_data_def split: option.splits)
qed

lemma apply_updates_stamp_le:
  "sorted (map fst ups) \<Longrightarrow> (\<forall>x \<in> set ups. fst x \<le> t)
     \<Longrightarrow> stamp_le (apply_updates (new_device k) ups) t"
proof (induction ups arbitrary: t rule: rev_induct)
  case Nil
  show ?case
    by (simp add: apply_updates_def stamp_le_def new_device_def)
next
  case (snoc x ups)
  obtain now u where x: "x = (now, u)"
    by (cases x)
  from snoc.prems(1) have s: "sorted (map fst ups)" and b: "\<forall>y \<in> set ups. fst y \<le> now"
    by (auto simp add: sorted_append x)
  from snoc.IH [OF s b] have "stamp_le (apply_updates (new_device k) ups) now" .
  then have "stamp_le (apply_update (apply_updates (new_device k) ups) (now, u)) now"
    by (rule apply_update_stamp_le)
  moreover from snoc.prems(2) have "now \<le> t"
    by (simp add: x)
  ultimately show ?case
    by (simp add: apply_updates_def x stamp_le_mono)
qed

lemma apply_update_energy_mono:
  assumes "stamp_le d now" "0 \<le> heater_power d"
  shows "energy_kwh d \<le> energy_kwh (apply_update d (now, u))"
proof (cases u)
  case (StateDelta delta)
  then show ?thesis
    by (auto simp add: apply_state_data_frame split: sum.split)
next
  case (TelemetryDelta delta)
  with assms show ?thesis
    by (auto simp add: stamp_le_def apply_telemetry_data_def accrued_energy_def
          split: option.splits)
qed

lemma poll_devices_creates:
  assumes "\<forall>f \<in> set fs. \<exists>state telemetry. fetched_state f = Inr state \<and> fetched_telemetry f = Inr telemetry"
  shows "\<exists>devs'. poll_devices devs fs = Inr devs' \<and> dom devs' = dom devs \<union> fetched_id ` set fs"
  using assms
proof (induction fs arbitrary: devs)
  case Nil
  show ?case by simp
next
  case (Cons f fs)
  from Cons.prems obtain state telemetry
    where f: "fetched_state f = Inr state" "fetched_telemetry f = Inr telemetry"
    by auto
  obtain d1 where d1: "apply_state_data (new_device (fetched_id f)) state = Inr d1"
    using apply_state_data_total by blast
  from Cons.prems have "\<forall>g \<in> set fs. \<exists>state telemetry. fetched_state g = Inr state \<and> fetched_telemetry g = Inr telemetry"
    by simp
  from Cons.IH [OF this, of "devs(fetched_id f \<mapsto> apply_telemetry_data d1 telemetry (fetched_now f))"]
  obtain devs' where r: "poll_devices (devs(fetched_id f \<mapsto> apply_telemetry_data d1 telemetry (fetched_now f))) fs = Inr devs'"
    "dom devs' = dom (devs(fetched_id f \<mapsto> apply_telemetry_data d1 telemetry (fetched_now f))) \<union> fetched_id ` set fs"
    by blast
  have "poll_devices devs (f # fs) = Inr devs'"
    by (simp add: f d1 r(1))
  moreover have "dom devs' = dom devs \<union> fetched_id ` set (f # fs)"
    using r(2) by simp
  ultimately show ?case by blast
qed

lemma listen_step_keeps_timeout:
  assumes "\<not> is_ack ev" "listen_step st ev = Listening st'"
  shows "timeout st' = timeout st"
proof (cases ev)
  case (Received m)
  with assms show ?thesis
    by (cases m) (auto simp add: is_ack_def Let_def split: if_splits option.splits)
qed (use assms in auto)

lemma listen_keeps_timeout:
  "\<forall>ev \<in> set evs. \<not> is_ack ev \<Longrightarrow> listen st evs = Listening st' \<Longrightarrow> timeout st' = timeout st"
proof (induction evs arbitrary: st)
  case Nil
  then show ?case by simp
next
  case (Cons ev evs)
  from Cons.prems(2) obtain st1 where s: "listen_step st ev = Listening st1"
    by (auto split: loop_result.splits)
  with Cons.prems(2) have "listen st1 evs = Listening st'" by simp
  with Cons.IH [of st1] Cons.prems(1) have "timeout st' = timeout st1" by simp
  moreover from Cons.prems(1) have "\<not> is_ack ev" by simp
  then have "timeout st1 = timeout st"
    using s by (rule listen_step_keeps_timeout)
  ultimately show ?case by simp
qed

text \<open>
  After 1024 cycles in a row whose attempt to connect failed, the delay cannot be
  computed: the exception leaves \<open>async_run\<close> and the counter stays as it is.
\<close>

lemma backoff_overflow:
  "run_pass \<lparr> ws_running = True, reconnect_attempts = 1024, websocket_open = False \<rparr>
     \<lparr> cycle_attempt = ConnectFails HarviaConnectionError, stop_requested = False, jitter = 0 \<rparr>
   = Some (\<lparr> ws_running = True, reconnect_attempts = 1024, websocket_open = False \<rparr>,
           Crash OverflowError)"
  by (simp add: run_pass_def async_connect_and_listen_def backoff_delay_def)

section \<open>The claims\<close>

text \<open>
  Claim C1. A telemetry delta with a heat-on flag, applied to a record that was heating
  and holds a heat-on-since timestamp \<open>t0\<close>, adds
  \<open>(heater_power / 1000) * ((now - t0) / 3600)\<close> to \<open>energy_kwh\<close>; the flag and the
  timestamp used are those of the record before the delta, and afterwards the timestamp is
  the current clock reading when the new flag is heating and absent otherwise. With the
  nameplate power 10800 W, heat-on at 0 s and heat-off at 3600 s give 10.8 kWh.
\<close>

theorem energy_integration:
  assumes "delta ''heatOn'' = Some v"
    and "heat_on d"
    and "last_heat_on_timestamp d = Some t0"
  shows "energy_kwh (apply_telemetry_data d delta now)
           = energy_kwh d + (real_of_int (heater_power d) / 1000) * ((now - t0) / 3600)
         \<and> heat_on (apply_telemetry_data d delta now) = truthy v
         \<and> last_heat_on_timestamp (apply_telemetry_data d delta now)
             = (if truthy v then Some now else None)"
  using assms
  by (simp add: apply_telemetry_data_def accrued_energy_def bool_field_Some)

theorem energy_integration_witness:
  "[''heatOn'' \<mapsto> JBool False] ''heatOn'' = Some (JBool False)
   \<and> heat_on (apply_telemetry_data (new_device ''sauna'') [''heatOn'' \<mapsto> JBool True] 0)
   \<and> last_heat_on_timestamp
        (apply_telemetry_data (new_device ''sauna'') [''heatOn'' \<mapsto> JBool True] 0) = Some 0
   \<and> heater_power (new_device ''sauna'') = 10800
   \<and> energy_kwh
        (apply_telemetry_data
           (apply_telemetry_data (new_device ''sauna'') [''heatOn'' \<mapsto> JBool True] 0)
           [''heatOn'' \<mapsto> JBool False] 3600) = 10.8
   \<and> last_heat_on_timestamp
        (apply_telemetry_data
           (apply_telemetry_data (new_device ''sauna'') [''heatOn'' \<mapsto> JBool True] 0)
           [''heatOn'' \<mapsto> JBool False] 3600) = None"
proof -
  let ?d = "apply_telemetry_data (new_device ''sauna'') [''heatOn'' \<mapsto> JBool True] 0"
  have h1: "[''heatOn'' \<mapsto> JBool False] ''heatOn'' = Some (JBool False)"
    by simp
  have h2: "heat_on ?d"
    by (simp add: apply_telemetry_data_def bool_field_def)
  have h3: "last_heat_on_timestamp ?d = Some 0"
    by (simp add: apply_telemetry_data_def)
  have e0: "energy_kwh ?d = 0" "heater_power ?d = 10800" "heater_power (new_device ''sauna'') = 10800"
    by (simp_all add: apply_telemetry_data_def new_device_def accrued_energy_def)
  from energy_integration [of "[''heatOn'' \<mapsto> JBool False]" "JBool False" ?d 0 3600, OF h1 h2 h3]
    e0 h1 h2 h3
  show ?thesis by simp
qed



text \<open>
  Claim C6. Applying a state delta twice gives the record of applying it once. The same
  holds for a telemetry delta without a true heat-on flag, at whatever clock readings
  \<open>t1\<close> and \<open>t2\<close> the two applications happen. A telemetry delta with a true heat-on flag
  is the exception: the second application adds the energy of the time \<open>t2 - t1\<close> between
  the two and moves the timestamp to \<open>t2\<close>, and changes nothing else.
\<close>

theorem delta_idempotence:
  "(\<exists>d1. apply_state_data d sdelta = Inr d1 \<and> apply_state_data d1 sdelta = Inr d1)
   \<and> (\<not> (\<exists>v. tdelta ''heatOn'' = Some v \<and> truthy v) \<longrightarrow>
        apply_telemetry_data (apply_telemetry_data d tdelta t1) tdelta t2
          = apply_telemetry_data d tdelta t1)
   \<and> (\<forall>v. hdelta ''heatOn'' = Some v \<and> truthy v \<longrightarrow>
        apply_telemetry_data (apply_telemetry_data d hdelta t1) hdelta t2
          = (apply_telemetry_data d hdelta t1)
              \<lparr> energy_kwh := energy_kwh (apply_telemetry_data d hdelta t1)
                   + (real_of_int (heater_power d) / 1000) * ((t2 - t1) / 3600),
                last_heat_on_timestamp := Some t2 \<rparr>)"
proof (intro conjI impI allI)
  obtain d1 where "apply_state_data d sdelta = Inr d1"
    using apply_state_data_total by blast
  then show "\<exists>d1. apply_state_data d sdelta = Inr d1 \<and> apply_state_data d1 sdelta = Inr d1"
    using apply_state_data_twice by blast
next
  assume "\<not> (\<exists>v. tdelta ''heatOn'' = Some v \<and> truthy v)"
  then show "apply_telemetry_data (apply_telemetry_data d tdelta t1) tdelta t2
               = apply_telemetry_data d tdelta t1"
    by (rule telemetry_twice_no_heat)
next
  fix v
  assume "hdelta ''heatOn'' = Some v \<and> truthy v"
  then show "apply_telemetry_data (apply_telemetry_data d hdelta t1) hdelta t2
          = (apply_telemetry_data d hdelta t1)
              \<lparr> energy_kwh := energy_kwh (apply_telemetry_data d hdelta t1)
                   + (real_of_int (heater_power d) / 1000) * ((t2 - t1) / 3600),
                last_heat_on_timestamp := Some t2 \<rparr>"
    using telemetry_twice_heat by blast
qed

theorem delta_idempotence_witness:
  "\<not> (\<exists>v. [''temperature'' \<mapsto> JInt 80, ''heatOn'' \<mapsto> JBool False] ''heatOn'' = Some v \<and> truthy v)
   \<and> [''heatOn'' \<mapsto> JBool True] ''heatOn'' = Some (JBool True) \<and> truthy (JBool True)
   \<and> (\<exists>d1. apply_state_data (new_device ''sauna'')
              [''active'' \<mapsto> JInt 1, ''statusCodes'' \<mapsto> JInt 190] = Inr d1
          \<and> apply_state_data d1 [''active'' \<mapsto> JInt 1, ''statusCodes'' \<mapsto> JInt 190] = Inr d1)
   \<and> apply_telemetry_data
        (apply_telemetry_data (new_device ''sauna'')
           [''temperature'' \<mapsto> JInt 80, ''heatOn'' \<mapsto> JBool False] 0)
        [''temperature'' \<mapsto> JInt 80, ''heatOn'' \<mapsto> JBool False] 3600
      = apply_telemetry_data (new_device ''sauna'')
          [''temperature'' \<mapsto> JInt 80, ''heatOn'' \<mapsto> JBool False] 0
   \<and> energy_kwh
        (apply_telemetry_data
           (apply_telemetry_data (new_device ''sauna'') [''heatOn'' \<mapsto> JBool True] 0)
           [''heatOn'' \<mapsto> JBool True] 3600) = 10.8"
proof -
  have p: "heater_power (new_device ''sauna'') = 10800"
    by (simp add: new_device_def)
  have e: "energy_kwh (apply_telemetry_data (new_device ''sauna'') [''heatOn'' \<mapsto> JBool True] 0) = 0"
    by (simp add: apply_telemetry_data_def new_device_def accrued_energy_def)
  have h: "\<not> (\<exists>v. [''temperature'' \<mapsto> JInt 80, ''heatOn'' \<mapsto> JBool False] ''heatOn'' = Some v \<and> truthy v)"
    by simp
  note t = delta_idempotence [of "new_device ''sauna''"
      "[''active'' \<mapsto> JInt 1, ''statusCodes'' \<mapsto> JInt 190]"
      "[''temperature'' \<mapsto> JInt 80, ''heatOn'' \<mapsto> JBool False]" 0 3600
      "[''heatOn'' \<mapsto> JBool True]"]
  from t have a: "\<exists>d1. apply_state_data (new_device ''sauna'')
              [''active'' \<mapsto> JInt 1, ''statusCodes'' \<mapsto> JInt 190] = Inr d1
          \<and> apply_state_data d1 [''active'' \<mapsto> JInt 1, ''statusCodes'' \<mapsto> JInt 190] = Inr d1"
    by (rule conjunct1)
  from t h have b: "apply_telemetry_data
        (apply_telemetry_data (new_device ''sauna'')
           [''temperature'' \<mapsto> JInt 80, ''heatOn'' \<mapsto> JBool False] 0)
        [''temperature'' \<mapsto> JInt 80, ''heatOn'' \<mapsto> JBool False] 3600
      = apply_telemetry_data (new_device ''sauna'')
          [''temperature'' \<mapsto> JInt 80, ''heatOn'' \<mapsto> JBool False] 0"
    by blast
  from t have "apply_telemetry_data
           (apply_telemetry_data (new_device ''sauna'') [''heatOn'' \<mapsto> JBool True] 0)
           [''heatOn'' \<mapsto> JBool True] 3600
         = (apply_telemetry_data (new_device ''sauna'') [''heatOn'' \<mapsto> JBool True] 0)
              \<lparr> energy_kwh := energy_kwh (apply_telemetry_data (new_device ''sauna'') [''heatOn'' \<mapsto> JBool True] 0)
                   + (real_of_int (heater_power (new_device ''sauna'')) / 1000) * ((3600 - 0) / 3600),
                last_heat_on_timestamp := Some 3600 \<rparr>"
    by simp
  then have c: "energy_kwh
        (apply_telemetry_data
           (apply_telemetry_data (new_device ''sauna'') [''heatOn'' \<mapsto> JBool True] 0)
           [''heatOn'' \<mapsto> JBool True] 3600) = 10.8"
    by (simp add: p e)
  from a b c h show ?thesis by simp
qed

text \<open>
  Claim C3. \<open>energy_kwh\<close> is to be non-decreasing under all update operations. The
  fallback poll breaks it: after a poll at the clock reading 0 that finds the heater on
  and a pushed heat-off at 3600, the device holds 10.8 kWh; the poll at 3900 leaves it
  with 0 kWh.
\<close>

theorem poll_decreases_energy:
  "map_option energy_kwh
     (get_device_data
        (after_push
           (async_refresh \<lparr> config_entry = Map.empty, data = None \<rparr>
              (Inr [\<lparr> fetched_id = ''sauna'', fetched_state = Inr [''deviceId'' \<mapsto> JStr ''sauna''],
                      fetched_telemetry = Inr [''heatOn'' \<mapsto> JBool True], fetched_now = 0 \<rparr>]))
           (OnDataUpdates \<lparr> item_deviceId = Some (JStr ''sauna''),
                            item_data = Inr [''heatOn'' \<mapsto> JBool False],
                            item_timestamp = JNull \<rparr>) 3600)
        ''sauna'') = Some 10.8
   \<and> map_option energy_kwh
     (get_device_data
        (async_refresh
           (after_push
              (async_refresh \<lparr> config_entry = Map.empty, data = None \<rparr>
                 (Inr [\<lparr> fetched_id = ''sauna'', fetched_state = Inr [''deviceId'' \<mapsto> JStr ''sauna''],
                         fetched_telemetry = Inr [''heatOn'' \<mapsto> JBool True], fetched_now = 0 \<rparr>]))
              (OnDataUpdates \<lparr> item_deviceId = Some (JStr ''sauna''),
                               item_data = Inr [''heatOn'' \<mapsto> JBool False],
                               item_timestamp = JNull \<rparr>) 3600)
           (Inr [\<lparr> fetched_id = ''sauna'', fetched_state = Inr [''deviceId'' \<mapsto> JStr ''sauna''],
                   fetched_telemetry = Inr [''heatOn'' \<mapsto> JBool False], fetched_now = 3900 \<rparr>]))
        ''sauna'') = Some 0"
  by (simp add: get_device_data_def after_push_def async_handle_ws_update_def known_device_def
        store_device_def async_refresh_def async_update_data_def apply_state_data_def Let_def
        apply_telemetry_data_def accrued_energy_def bool_field_def raw_field_def new_device_def)

text \<open>
  Along the deltas alone the energy never decreases: for a record created by the code and
  any deltas applied to it at the readings of the monotonic clock (readings that do not
  decrease), the energy after the next delta, of state or of telemetry, is at least the
  energy before it.
\<close>

theorem energy_monotone:
  assumes "sorted (map fst (ups @ [(now, u)]))"
  shows "energy_kwh (apply_updates (new_device k) ups)
           \<le> energy_kwh (apply_updates (new_device k) (ups @ [(now, u)]))"
proof -
  from assms have s: "sorted (map fst ups)" and b: "\<forall>y \<in> set ups. fst y \<le> now"
    by (auto simp add: sorted_append)
  have "stamp_le (apply_updates (new_device k) ups) now"
    using s b by (rule apply_updates_stamp_le)
  moreover have "0 \<le> heater_power (apply_updates (new_device k) ups)"
    by (simp add: apply_updates_heater_power new_device_def)
  ultimately have "energy_kwh (apply_updates (new_device k) ups)
      \<le> energy_kwh (apply_update (apply_updates (new_device k) ups) (now, u))"
    by (rule apply_update_energy_mono)
  then show ?thesis
    by (simp add: apply_updates_def)
qed

theorem energy_monotone_witness:
  "sorted (map fst ([(0, TelemetryDelta [''heatOn'' \<mapsto> JBool True]),
                     (10, StateDelta [''active'' \<mapsto> JBool True])]
                    @ [(1800 :: real, TelemetryDelta [''heatOn'' \<mapsto> JBool False])]))
   \<and> energy_kwh (apply_updates (new_device ''sauna'')
        [(0, TelemetryDelta [''heatOn'' \<mapsto> JBool True]),
         (10, StateDelta [''active'' \<mapsto> JBool True])]) = 0
   \<and> energy_kwh (apply_updates (new_device ''sauna'')
        ([(0, TelemetryDelta [''heatOn'' \<mapsto> JBool True]),
          (10, StateDelta [''active'' \<mapsto> JBool True])]
         @ [(1800, TelemetryDelta [''heatOn'' \<mapsto> JBool False])])) = 5.4"
proof -
  have h: "sorted (map fst ([(0, TelemetryDelta [''heatOn'' \<mapsto> JBool True]),
                     (10, StateDelta [''active'' \<mapsto> JBool True])]
                    @ [(1800 :: real, TelemetryDelta [''heatOn'' \<mapsto> JBool False])]))"
    by simp
  have a: "energy_kwh (apply_updates (new_device ''sauna'')
        [(0, TelemetryDelta [''heatOn'' \<mapsto> JBool True]),
         (10, StateDelta [''active'' \<mapsto> JBool True])]) = 0"
    by (simp add: apply_updates_def apply_telemetry_data_def apply_state_data_def Let_def
          accrued_energy_def new_device_def)
  have b: "energy_kwh (apply_updates (new_device ''sauna'')
        ([(0, TelemetryDelta [''heatOn'' \<mapsto> JBool True]),
          (10, StateDelta [''active'' \<mapsto> JBool True])]
         @ [(1800, TelemetryDelta [''heatOn'' \<mapsto> JBool False])])) = 5.4"
    by (simp add: apply_updates_def apply_telemetry_data_def apply_state_data_def Let_def
          accrued_energy_def new_device_def bool_field_def)
  from energy_monotone [OF h, of "''sauna''"] h a b show ?thesis
    by simp
qed

text \<open>
  Claim C9. A pushed state delta whose device identifier is no key of the device map is
  dropped: the coordinator is returned as it was and nobody is notified. A fallback poll
  whose device tree has that identifier, and whose requests succeed, leaves a record for
  it.
\<close>

theorem unknown_device_push_dropped:
  assumes "data self = Some sd"
    and "state ''deviceId'' = Some (JStr k)"
    and "devices sd k = None"
    and "\<forall>f \<in> set entries. \<exists>st telemetry. fetched_state f = Inr st \<and> fetched_telemetry f = Inr telemetry"
    and "k \<in> fetched_id ` set entries"
  shows "async_handle_ws_update self (OnStateUpdated (Some (Inr state))) now = Inr (self, False)
         \<and> (\<exists>d. get_device_data (async_refresh self (Inr entries)) k = Some d)"
proof -
  from assms(1-3) have a: "async_handle_ws_update self (OnStateUpdated (Some (Inr state))) now = Inr (self, False)"
    by (simp add: async_handle_ws_update_def known_device_def)
  from poll_devices_creates [OF assms(4), of Map.empty] obtain devs'
    where p: "poll_devices Map.empty entries = Inr devs'" "dom devs' = fetched_id ` set entries"
    by auto
  from p(2) assms(5) have "k \<in> dom devs'" by simp
  then obtain d where "devs' k = Some d" by auto
  with p(1) have "get_device_data (async_refresh self (Inr entries)) k = Some d"
    by (simp add: get_device_data_def async_refresh_def async_update_data_def)
  with a show ?thesis by blast
qed

theorem unknown_device_push_dropped_witness:
  "data \<lparr> config_entry = Map.empty, data = Some \<lparr> devices = Map.empty, available = True \<rparr> \<rparr>
     = Some \<lparr> devices = Map.empty, available = True \<rparr>
   \<and> [''deviceId'' \<mapsto> JStr ''sauna'', ''active'' \<mapsto> JBool True] ''deviceId'' = Some (JStr ''sauna'')
   \<and> devices \<lparr> devices = Map.empty, available = True \<rparr> ''sauna'' = None
   \<and> async_handle_ws_update
        \<lparr> config_entry = Map.empty, data = Some \<lparr> devices = Map.empty, available = True \<rparr> \<rparr>
        (OnStateUpdated (Some (Inr [''deviceId'' \<mapsto> JStr ''sauna'', ''active'' \<mapsto> JBool True]))) 0
      = Inr (\<lparr> config_entry = Map.empty, data = Some \<lparr> devices = Map.empty, available = True \<rparr> \<rparr>,
             False)
   \<and> (\<exists>d. get_device_data
          (async_refresh
             \<lparr> config_entry = Map.empty, data = Some \<lparr> devices = Map.empty, available = True \<rparr> \<rparr>
             (Inr [\<lparr> fetched_id = ''sauna'',
                     fetched_state = Inr [''deviceId'' \<mapsto> JStr ''sauna'', ''active'' \<mapsto> JBool True],
                     fetched_telemetry = Inr Map.empty, fetched_now = 0 \<rparr>]))
          ''sauna'' = Some d)"
  using unknown_device_push_dropped
    [of "\<lparr> config_entry = Map.empty, data = Some \<lparr> devices = Map.empty, available = True \<rparr> \<rparr>"
        "\<lparr> devices = Map.empty, available = True \<rparr>"
        "[''deviceId'' \<mapsto> JStr ''sauna'', ''active'' \<mapsto> JBool True]" "''sauna''"
        "[\<lparr> fetched_id = ''sauna'',
                     fetched_state = Inr [''deviceId'' \<mapsto> JStr ''sauna'', ''active'' \<mapsto> JBool True],
                     fetched_telemetry = Inr Map.empty, fetched_now = 0 \<rparr>]" 0]
  by simp

text \<open>
  Claim C10. While the coordinator holds no data, every pushed payload (a state update, a
  telemetry item, one that cannot be decoded or is malformed) is discarded: the
  coordinator is returned as it was, nobody is notified and no exception is raised.
\<close>

theorem push_before_first_poll:
  assumes "data self = None"
  shows "async_handle_ws_update self payload now = Inr (self, False)"
  using assms by (simp add: async_handle_ws_update_def)

theorem push_before_first_poll_witness:
  "data \<lparr> config_entry = Map.empty, data = None \<rparr> = None
   \<and> async_handle_ws_update \<lparr> config_entry = Map.empty, data = None \<rparr>
        (OnDataUpdates \<lparr> item_deviceId = Some (JStr ''sauna''),
                         item_data = Inr [''heatOn'' \<mapsto> JBool True], item_timestamp = JNull \<rparr>) 5
      = Inr (\<lparr> config_entry = Map.empty, data = None \<rparr>, False)
   \<and> async_handle_ws_update \<lparr> config_entry = Map.empty, data = None \<rparr>
        (OnStateUpdated (Some (Inl JSONDecodeError))) 5
      = Inr (\<lparr> config_entry = Map.empty, data = None \<rparr>, False)"
  using push_before_first_poll [of "\<lparr> config_entry = Map.empty, data = None \<rparr>"
      "OnDataUpdates \<lparr> item_deviceId = Some (JStr ''sauna''),
                         item_data = Inr [''heatOn'' \<mapsto> JBool True], item_timestamp = JNull \<rparr>" 5]
    push_before_first_poll [of "\<lparr> config_entry = Map.empty, data = None \<rparr>"
      "OnStateUpdated (Some (Inl JSONDecodeError))" 5]
  by simp

text \<open>
  Claim C2. A fallback poll does not keep the record of a known device: it builds a new
  one. Here the device has accumulated 5 kWh and has been heating since the clock
  reading 100; after a poll at the reading 400 its record holds 0 kWh.
\<close>

theorem poll_resets_energy:
  "map_option energy_kwh
     (get_device_data
        \<lparr> config_entry = Map.empty,
          data = Some \<lparr> devices = [''sauna'' \<mapsto> (new_device ''sauna'')
                          \<lparr> heat_on := True, energy_kwh := 5, last_heat_on_timestamp := Some 100 \<rparr>],
                        available = True \<rparr> \<rparr> ''sauna'') = Some 5
   \<and> map_option energy_kwh
     (get_device_data
        (async_refresh
           \<lparr> config_entry = Map.empty,
             data = Some \<lparr> devices = [''sauna'' \<mapsto> (new_device ''sauna'')
                             \<lparr> heat_on := True, energy_kwh := 5, last_heat_on_timestamp := Some 100 \<rparr>],
                           available = True \<rparr> \<rparr>
           (Inr [\<lparr> fetched_id = ''sauna'', fetched_state = Inr [''deviceId'' \<mapsto> JStr ''sauna''],
                   fetched_telemetry = Inr [''heatOn'' \<mapsto> JBool True], fetched_now = 400 \<rparr>]))
        ''sauna'') = Some 0"
  by (simp add: get_device_data_def async_refresh_def async_update_data_def
        apply_state_data_def Let_def apply_telemetry_data_def accrued_energy_def new_device_def)

text \<open>
  Claim C4. The configured heater power does not reach the record: with 6.0 kW in the
  configuration entry, the record a poll creates has the default power of 10800 W.
\<close>

theorem configured_power_ignored:
  "map_option heater_power
     (get_device_data
        (async_refresh
           \<lparr> config_entry = [''heater_model'' \<mapsto> ''kip'', ''heater_power'' \<mapsto> ''6.0''],
             data = None \<rparr>
           (Inr [\<lparr> fetched_id = ''sauna'', fetched_state = Inr [''deviceId'' \<mapsto> JStr ''sauna''],
                   fetched_telemetry = Inr [''heatOn'' \<mapsto> JBool True], fetched_now = 400 \<rparr>]))
        ''sauna'') = Some 10800"
  by (simp add: get_device_data_def async_refresh_def async_update_data_def
        apply_state_data_def Let_def apply_telemetry_data_def accrued_energy_def new_device_def)

text \<open>
  Claim C7, as stated, fails: the counter is not reset by \<open>connection_ack\<close> only. A
  cycle that starts with three attempts, opens the transport and times out without any
  acknowledgement sleeps for 1.5 s, on the curve of no attempts, not for 8.5 s, and
  leaves the counter at 1.
\<close>

theorem backoff_reset_counterexample:
  "\<not> is_ack RecvTimeout
   \<and> run_pass \<lparr> ws_running = True, reconnect_attempts = 3, websocket_open = False \<rparr>
        \<lparr> cycle_attempt = Connected [RecvTimeout], stop_requested = False, jitter = 1 / 2 \<rparr>
      = Some (\<lparr> ws_running = True, reconnect_attempts = 1, websocket_open = False \<rparr>,
              Sleep (3 / 2))
   \<and> (3 / 2 :: real) \<noteq> min (2 ^ 3 + 1 / 2) WS_MAX_RECONNECT_DELAY"
  by (simp add: is_ack_def run_pass_def async_connect_and_listen_def backoff_delay_def
        WS_MAX_RECONNECT_DELAY_def WS_HEARTBEAT_TIMEOUT_def Let_def)

text \<open>
  Claim C7, amended. For a connection cycle that ends or fails while the connection is
  still running, with \<open>N\<close> the attempt counter when the delay is computed and
  \<open>N < 1024\<close>: the delay is \<open>min (2 ^ N + jitter) WS_MAX_RECONNECT_DELAY\<close> and the counter
  becomes \<open>N + 1\<close>. The counter is set to zero when the transport opens, before any
  acknowledgement: \<open>N\<close> is 0 for every cycle whose transport opened, acknowledged or not,
  and the counter of the previous cycles when the attempt to connect failed.
\<close>

theorem backoff_after_cycle:
  assumes "ws_running self"
    and "\<not> stop_requested c"
    and "async_connect_and_listen self (cycle_attempt c) = Some (self1, oc)"
    and "oc \<noteq> Raised CancelledError"
    and "N = (case cycle_attempt c of Connected evs \<Rightarrow> 0 | ConnectFails e \<Rightarrow> reconnect_attempts self)"
    and "N < 1024"
  shows "run_pass self c
           = Some (self1\<lparr> reconnect_attempts := N + 1 \<rparr>,
                   Sleep (min (2 ^ N + jitter c) WS_MAX_RECONNECT_DELAY))"
proof -
  from assms(3) have r: "ws_running self1 = ws_running self"
    by (auto simp add: async_connect_and_listen_def Let_def
          split: attempt.splits loop_result.splits)
  from assms(3,5) have n: "reconnect_attempts self1 = N"
    by (auto simp add: async_connect_and_listen_def Let_def
          split: attempt.splits loop_result.splits)
  from assms(1,2,3,4,6) r n show ?thesis
    by (simp add: run_pass_def backoff_delay_def)
qed

theorem backoff_after_cycle_witness:
  "ws_running \<lparr> ws_running = True, reconnect_attempts = 3, websocket_open = False \<rparr>
   \<and> run_pass \<lparr> ws_running = True, reconnect_attempts = 3, websocket_open = False \<rparr>
        \<lparr> cycle_attempt = ConnectFails HarviaConnectionError, stop_requested = False,
          jitter = 1 / 2 \<rparr>
      = Some (\<lparr> ws_running = True, reconnect_attempts = 4, websocket_open = False \<rparr>,
              Sleep (17 / 2))
   \<and> run_pass \<lparr> ws_running = True, reconnect_attempts = 3, websocket_open = False \<rparr>
        \<lparr> cycle_attempt = Connected [Received (ConnectionAck None None), RecvClosedError],
          stop_requested = False, jitter = 1 / 2 \<rparr>
      = Some (\<lparr> ws_running = True, reconnect_attempts = 1, websocket_open = False \<rparr>,
              Sleep (3 / 2))
   \<and> run_pass \<lparr> ws_running = True, reconnect_attempts = 7, websocket_open = False \<rparr>
        \<lparr> cycle_attempt = ConnectFails HarviaConnectionError, stop_requested = False,
          jitter = 1 / 2 \<rparr>
      = Some (\<lparr> ws_running = True, reconnect_attempts = 8, websocket_open = False \<rparr>,
              Sleep 60)"
proof -
  let ?s = "\<lambda>n. \<lparr> ws_running = True, reconnect_attempts = n, websocket_open = False \<rparr>"
  let ?f = "\<lparr> cycle_attempt = ConnectFails HarviaConnectionError, stop_requested = False,
          jitter = 1 / 2 \<rparr>"
  let ?a = "\<lparr> cycle_attempt = Connected [Received (ConnectionAck None None), RecvClosedError],
          stop_requested = False, jitter = 1 / 2 \<rparr>"
  have c1: "async_connect_and_listen (?s 3) (cycle_attempt ?f) = Some (?s 3, Raised HarviaConnectionError)"
    by (simp add: async_connect_and_listen_def)
  have c2: "async_connect_and_listen (?s 3) (cycle_attempt ?a) = Some (?s 0, Returned)"
    by (simp add: async_connect_and_listen_def ack_timeout_def Let_def)
  have c3: "async_connect_and_listen (?s 7) (cycle_attempt ?f) = Some (?s 7, Raised HarviaConnectionError)"
    by (simp add: async_connect_and_listen_def)
  have "run_pass (?s 3) ?f = Some (?s 4, Sleep (17 / 2))"
    using backoff_after_cycle [of "?s 3" ?f "?s 3" "Raised HarviaConnectionError" 3, OF _ _ c1]
    by (simp add: WS_MAX_RECONNECT_DELAY_def)
  moreover have "run_pass (?s 3) ?a = Some (?s 1, Sleep (3 / 2))"
    using backoff_after_cycle [of "?s 3" ?a "?s 0" Returned 0, OF _ _ c2]
    by (simp add: WS_MAX_RECONNECT_DELAY_def)
  moreover have "run_pass (?s 7) ?f = Some (?s 8, Sleep 60)"
    using backoff_after_cycle [of "?s 7" ?f "?s 7" "Raised HarviaConnectionError" 7, OF _ _ c3]
    by (simp add: WS_MAX_RECONNECT_DELAY_def)
  ultimately show ?thesis by simp
qed



text \<open>
  Claim C8, as stated, fails for a timeout whose quotient by 1000 is beyond the doubles:
  with \<open>connectionTimeoutMs\<close> at \<open>10 ^ 400\<close> the division raises, the receive loop of that
  connection ends with the exception and no timeout is adopted.
\<close>

theorem ack_timeout_counterexample:
  "deliver async_start 2
     (Received (ConnectionAck (Some [(''connectionTimeoutMs'', JInt (10 ^ 400))]) None)) ! 2
   = Raise OverflowError"
  by (simp add: deliver_def async_start_def ack_timeout_def DBL_OVERFLOW_def)

text \<open>
  Claim C8, amended. A connection that receives a \<open>connection_ack\<close> whose payload has an
  integer \<open>connectionTimeoutMs\<close> of a magnitude below \<open>1000 * DBL_OVERFLOW\<close> (its quotient
  by 1000 is a double) takes that number divided by 1000 as its read timeout; every later
  receive of the connection uses it, as long as no further acknowledgement arrives; the
  other connections of the manager are as they were. With 60000 the timeout is 60
  seconds and the other three keep 300.
\<close>

theorem ack_sets_read_timeout:
  assumes "i < length conns"
    and "conns ! i = Listening st"
    and "map_of payload ''connectionTimeoutMs'' = Some (JInt ms)"
    and "\<bar>ms\<bar> < 1000 * DBL_OVERFLOW"
  shows "deliver conns i (Received (ConnectionAck (Some payload) None)) ! i
           = Listening (st\<lparr> timeout := real_of_int ms / 1000 \<rparr>)
         \<and> (\<forall>evs st'. (\<forall>ev \<in> set evs. \<not> is_ack ev)
               \<and> listen (st\<lparr> timeout := real_of_int ms / 1000 \<rparr>) evs = Listening st'
               \<longrightarrow> timeout st' = real_of_int ms / 1000)
         \<and> (\<forall>j. j < length conns \<and> j \<noteq> i \<longrightarrow>
               deliver conns i (Received (ConnectionAck (Some payload) None)) ! j = conns ! j)"
proof (intro conjI allI impI)
  from assms(3) have "payload \<noteq> []" by auto
  with assms show "deliver conns i (Received (ConnectionAck (Some payload) None)) ! i
           = Listening (st\<lparr> timeout := real_of_int ms / 1000 \<rparr>)"
    by (simp add: deliver_def ack_timeout_def)
next
  fix evs st'
  assume "(\<forall>ev \<in> set evs. \<not> is_ack ev)
               \<and> listen (st\<lparr> timeout := real_of_int ms / 1000 \<rparr>) evs = Listening st'"
  then have "timeout st' = timeout (st\<lparr> timeout := real_of_int ms / 1000 \<rparr>)"
    using listen_keeps_timeout by blast
  then show "timeout st' = real_of_int ms / 1000" by simp
next
  fix j
  assume "j < length conns \<and> j \<noteq> i"
  then show "deliver conns i (Received (ConnectionAck (Some payload) None)) ! j = conns ! j"
    by (simp add: deliver_def)
qed

theorem ack_sets_read_timeout_witness:
  "(2 :: nat) < length async_start
   \<and> async_start ! 2 = Listening \<lparr> timeout = 300, reconnect_timer = 0 \<rparr>
   \<and> map_of [(''connectionTimeoutMs'', JInt 60000)] ''connectionTimeoutMs'' = Some (JInt 60000)
   \<and> \<bar>60000\<bar> < 1000 * DBL_OVERFLOW
   \<and> deliver async_start 2
        (Received (ConnectionAck (Some [(''connectionTimeoutMs'', JInt 60000)]) None))
      = [Listening \<lparr> timeout = 300, reconnect_timer = 0 \<rparr>,
         Listening \<lparr> timeout = 300, reconnect_timer = 0 \<rparr>,
         Listening \<lparr> timeout = 60, reconnect_timer = 0 \<rparr>,
         Listening \<lparr> timeout = 300, reconnect_timer = 0 \<rparr>]
   \<and> listen \<lparr> timeout = 60, reconnect_timer = 0 \<rparr> [Received Ka, Received (Data None)]
      = Listening \<lparr> timeout = 60, reconnect_timer = 60 \<rparr>"
proof -
  have l: "length async_start = 4"
    by (simp add: async_start_def)
  have e: "async_start = [Listening \<lparr> timeout = 300, reconnect_timer = 0 \<rparr>,
         Listening \<lparr> timeout = 300, reconnect_timer = 0 \<rparr>,
         Listening \<lparr> timeout = 300, reconnect_timer = 0 \<rparr>,
         Listening \<lparr> timeout = 300, reconnect_timer = 0 \<rparr>]"
    by (simp add: async_start_def WS_HEARTBEAT_TIMEOUT_def numeral_eq_Suc)
  have h1: "(2 :: nat) < length async_start" by (simp add: l)
  have h2: "async_start ! 2 = Listening \<lparr> timeout = 300, reconnect_timer = 0 \<rparr>"
    by (simp add: e)
  have h3: "map_of [(''connectionTimeoutMs'', JInt 60000)] ''connectionTimeoutMs'' = Some (JInt 60000)"
    by simp
  have h4: "\<bar>60000\<bar> < 1000 * DBL_OVERFLOW"
    by (simp add: DBL_OVERFLOW_def)
  note t = ack_sets_read_timeout [OF h1 h2 h3 h4]
  let ?r = "deliver async_start 2
        (Received (ConnectionAck (Some [(''connectionTimeoutMs'', JInt 60000)]) None))"
  have len: "length ?r = 4"
    by (simp add: deliver_def l)
  from t have r2: "?r ! 2 = Listening \<lparr> timeout = 60, reconnect_timer = 0 \<rparr>"
    by simp
  from t have "?r ! 0 = async_start ! 0" "?r ! 1 = async_start ! 1" "?r ! 3 = async_start ! 3"
    by (simp_all add: l)
  then have r: "?r ! 0 = Listening \<lparr> timeout = 300, reconnect_timer = 0 \<rparr>"
    "?r ! 1 = Listening \<lparr> timeout = 300, reconnect_timer = 0 \<rparr>"
    "?r ! 3 = Listening \<lparr> timeout = 300, reconnect_timer = 0 \<rparr>"
    by (simp_all add: e)
  have "?r = [?r ! 0, ?r ! 1, ?r ! 2, ?r ! 3]"
    using len by (auto simp add: list_eq_iff_nth_eq less_Suc_eq numeral_eq_Suc nth_Cons')
  with r r2 have d: "?r = [Listening \<lparr> timeout = 300, reconnect_timer = 0 \<rparr>,
         Listening \<lparr> timeout = 300, reconnect_timer = 0 \<rparr>,
         Listening \<lparr> timeout = 60, reconnect_timer = 0 \<rparr>,
         Listening \<lparr> timeout = 300, reconnect_timer = 0 \<rparr>]"
    by simp
  have k: "listen \<lparr> timeout = 60, reconnect_timer = 0 \<rparr> [Received Ka, Received (Data None)]
      = Listening \<lparr> timeout = 60, reconnect_timer = 60 \<rparr>"
    by (simp add: WS_RECONNECT_INTERVAL_def Let_def)
  from h1 h2 h3 h4 d k show ?thesis by simp
qed

end
